theory Spec2Isabelle
  imports Main "HOL-Library.Sublist"
begin

section \<open>Python values and the operations the program applies to them\<close>

text \<open>
  The program (\<^verbatim>\<open>src/spotify-playlist-test/app.py\<close>) works on the JSON documents the
  catalogue API returns: dictionaries with string keys, lists, strings, integers and
  \<^verbatim>\<open>None\<close>.  Floats and booleans do not occur in the fields the program reads and are
  left out.  Strings are lists of characters with code points below 256.

  Every Python operation that can raise is a function into \<open>error + 'a\<close>; \<open>Inl\<close> is the
  raised exception.
\<close>

datatype error =
  KeyError | IndexError | TypeError | AttributeError | ValueError
  | UnboundLocalError | RequestError

datatype pyval =
  PNone
  | PInt int
  | PStr string
  | PList "pyval list"
  | PDict "(string \<times> pyval) list"

definition bind_exn :: "error + 'a \<Rightarrow> ('a \<Rightarrow> error + 'b) \<Rightarrow> error + 'b" where
  "bind_exn m f = (case m of Inl e \<Rightarrow> Inl e | Inr x \<Rightarrow> f x)"

text \<open>Truth value of an object, as \<^verbatim>\<open>if x\<close> and \<^verbatim>\<open>not x\<close> test it.\<close>

fun truthy :: "pyval \<Rightarrow> bool" where
  "truthy PNone = False"
| "truthy (PInt n) = (n \<noteq> 0)"
| "truthy (PStr s) = (s \<noteq> [])"
| "truthy (PList xs) = (xs \<noteq> [])"
| "truthy (PDict kvs) = (kvs \<noteq> [])"

text \<open>\<^verbatim>\<open>x[k]\<close> with a string key \<open>k\<close>.\<close>

fun getitem :: "pyval \<Rightarrow> string \<Rightarrow> error + pyval" where
  "getitem (PDict kvs) k = (case map_of kvs k of None \<Rightarrow> Inl KeyError | Some v \<Rightarrow> Inr v)"
| "getitem _ k = Inl TypeError"

text \<open>\<^verbatim>\<open>x[0]\<close>.  A dictionary has string keys only, so \<open>0\<close> is a missing key.\<close>

fun getitem0 :: "pyval \<Rightarrow> error + pyval" where
  "getitem0 (PList xs) = (case xs of [] \<Rightarrow> Inl IndexError | x # _ \<Rightarrow> Inr x)"
| "getitem0 (PStr s) = (case s of [] \<Rightarrow> Inl IndexError | c # _ \<Rightarrow> Inr (PStr [c]))"
| "getitem0 (PDict kvs) = Inl KeyError"
| "getitem0 _ = Inl TypeError"

text \<open>\<^verbatim>\<open>x.get(k, d)\<close>: only dictionaries have the method.\<close>

fun dict_get :: "pyval \<Rightarrow> string \<Rightarrow> pyval \<Rightarrow> error + pyval" where
  "dict_get (PDict kvs) k d = Inr (case map_of kvs k of None \<Rightarrow> d | Some v \<Rightarrow> v)"
| "dict_get _ k d = Inl AttributeError"

text \<open>Iteration over an object (\<^verbatim>\<open>for\<close>, \<^verbatim>\<open>list.extend\<close>, \<^verbatim>\<open>str.join\<close>) and \<^verbatim>\<open>len\<close>.\<close>

fun py_iter :: "pyval \<Rightarrow> error + pyval list" where
  "py_iter (PList xs) = Inr xs"
| "py_iter (PStr s) = Inr (map (\<lambda>c. PStr [c]) s)"
| "py_iter (PDict kvs) = Inr (map (\<lambda>kv. PStr (fst kv)) kvs)"
| "py_iter _ = Inl TypeError"

fun py_len :: "pyval \<Rightarrow> error + nat" where
  "py_len (PList xs) = Inr (length xs)"
| "py_len (PStr s) = Inr (length s)"
| "py_len (PDict kvs) = Inr (length kvs)"
| "py_len _ = Inl TypeError"

text \<open>\<^verbatim>\<open>k in x\<close> for a string \<open>k\<close>: key of a dictionary, element of a list, substring of a
  string.\<close>

fun py_in :: "string \<Rightarrow> pyval \<Rightarrow> error + bool" where
  "py_in k (PDict kvs) = Inr (map_of kvs k \<noteq> None)"
| "py_in k (PList xs) = Inr (PStr k \<in> set xs)"
| "py_in k (PStr s) = Inr (sublist k s)"
| "py_in k _ = Inl TypeError"

text \<open>\<^verbatim>\<open>sep.join(x)\<close>: every element of the iterable must be a string.\<close>

fun join :: "string \<Rightarrow> string list \<Rightarrow> string" where
  "join sep [] = []"
| "join sep [x] = x"
| "join sep (x # y # ys) = x @ sep @ join sep (y # ys)"

fun the_strs :: "pyval list \<Rightarrow> error + string list" where
  "the_strs [] = Inr []"
| "the_strs (PStr s # vs) = (case the_strs vs of Inl e \<Rightarrow> Inl e | Inr ss \<Rightarrow> Inr (s # ss))"
| "the_strs (_ # vs) = Inl TypeError"

definition py_join :: "string \<Rightarrow> pyval \<Rightarrow> error + pyval" where
  "py_join sep x =
     bind_exn (py_iter x) (\<lambda>vs. bind_exn (the_strs vs) (\<lambda>ss. Inr (PStr (join sep ss))))"

text \<open>\<^verbatim>\<open>s.split(c)\<close> for a one-character separator, reading \<open>s\<close> from the left;
  \<open>field\<close> is the part of the current field already read.  The result is never the
  empty list.\<close>

fun split_from :: "string \<Rightarrow> string \<Rightarrow> char \<Rightarrow> string list" where
  "split_from field [] c = [field]"
| "split_from field (x # xs) c =
     (if x = c then field # split_from [] xs c
      else split_from (field @ [x]) xs c)"

definition split :: "string \<Rightarrow> char \<Rightarrow> string list" where
  "split s c = split_from [] s c"

text \<open>\<^verbatim>\<open>xs[i]\<close> on a list, negative indices counting from the end.\<close>

definition index :: "'a list \<Rightarrow> int \<Rightarrow> error + 'a" where
  "index xs i =
     (if 0 \<le> i \<and> i < int (length xs) then Inr (xs ! nat i)
      else if i < 0 \<and> - int (length xs) \<le> i then Inr (xs ! nat (int (length xs) + i))
      else Inl IndexError)"

text \<open>\<^verbatim>\<open>x[:4]\<close>.\<close>

fun slice4 :: "pyval \<Rightarrow> error + pyval" where
  "slice4 (PStr s) = Inr (PStr (take 4 s))"
| "slice4 (PList xs) = Inr (PList (take 4 xs))"
| "slice4 _ = Inl TypeError"

text \<open>
  \<^verbatim>\<open>int(x)\<close> in base 10.  On a string: surrounding whitespace is dropped, one sign is
  allowed, and the rest is a non-empty run of decimal digits in which single underscores
  may stand between two digits.
\<close>

definition is_space :: "char \<Rightarrow> bool" where
  "is_space c = (of_char c \<in> {9, 10, 11, 12, 13, 32, 133, 160 :: nat})"

definition is_digit :: "char \<Rightarrow> bool" where
  "is_digit c = (48 \<le> (of_char c :: nat) \<and> (of_char c :: nat) \<le> 57)"

definition digit_val :: "char \<Rightarrow> nat" where
  "digit_val c = of_char c - 48"

definition strip :: "string \<Rightarrow> string" where
  "strip s = rev (dropWhile is_space (rev (dropWhile is_space s)))"

fun digits :: "bool \<Rightarrow> nat \<Rightarrow> string \<Rightarrow> nat option" where
  "digits prev acc [] = (if prev then Some acc else None)"
| "digits prev acc (c # cs) =
     (if is_digit c then digits True (10 * acc + digit_val c) cs
      else if c = CHR ''_'' \<and> prev then digits False acc cs
      else None)"

definition int_of_str :: "string \<Rightarrow> int option" where
  "int_of_str s =
     (case strip s of
        [] \<Rightarrow> None
      | c # cs \<Rightarrow>
          if c = CHR ''-'' then map_option (\<lambda>n. - int n) (digits False 0 cs)
          else if c = CHR ''+'' then map_option int (digits False 0 cs)
          else map_option int (digits False 0 (c # cs)))"

fun py_int :: "pyval \<Rightarrow> error + int" where
  "py_int (PStr s) = (case int_of_str s of None \<Rightarrow> Inl ValueError | Some n \<Rightarrow> Inr n)"
| "py_int (PInt n) = Inr n"
| "py_int _ = Inl TypeError"

section \<open>The outside world\<close>

text \<open>
  The three catalogue requests of the \<^verbatim>\<open>spotipy\<close> client \<^verbatim>\<open>sp\<close> and the numeric-string
  parser of \<^verbatim>\<open>pandas.to_numeric\<close> are not part of the program; they are parameters.
  A request returns a document or raises.
\<close>

record env =
  sp_playlist :: "string \<Rightarrow> error + pyval"
  sp_playlist_tracks :: "string \<Rightarrow> nat \<Rightarrow> error + pyval"
  sp_artist :: "pyval \<Rightarrow> error + pyval"
  pd_parse :: "string \<Rightarrow> int option"

section \<open>Playlist identifier\<close>

text \<open>Line 47: \<^verbatim>\<open>playlist_link.split("/")[-1].split("?")[0]\<close>.\<close>

definition parse_playlist_uri :: "string \<Rightarrow> error + string" where
  "parse_playlist_uri playlist_link =
     bind_exn (index (split playlist_link CHR ''/'') (- 1))
       (\<lambda>seg. index (split seg CHR ''?'') 0)"

section \<open>Paginated track collector\<close>

text \<open>
  The body of the \<^verbatim>\<open>try\<close> block of \<^verbatim>\<open>get_all_tracks\<close> (lines 31 to 38) once the
  request has returned \<open>response\<close>: it leaves the loop without touching \<open>results\<close>,
  or extends \<open>results\<close> and then leaves or goes on.  \<^verbatim>\<open>time.sleep\<close> only passes time.
\<close>

datatype step = Break | Extend_break "pyval list" | Extend_continue "pyval list"

definition page_body :: "pyval \<Rightarrow> error + step" where
  "page_body response =
     (if \<not> truthy response then Inr Break
      else bind_exn (py_in ''items'' response) (\<lambda>has_items.
        if \<not> has_items then Inr Break
        else bind_exn (getitem response ''items'') (\<lambda>items.
          bind_exn (py_iter items) (\<lambda>new.
            bind_exn (getitem response ''items'') (\<lambda>items'.
              bind_exn (py_len items') (\<lambda>n.
                if n < 100 then Inr (Extend_break new)
                else Inr (Extend_continue new)))))))"

text \<open>
  The \<^verbatim>\<open>while True\<close> loop.  It need not end (a server may answer every offset with a full
  page), so it is a partial function: \<open>None\<close> is the run that never returns.  Next to
  \<open>results\<close> the model keeps the offsets requested so far, the trace of the calls
  \<^verbatim>\<open>sp.playlist_tracks(playlist_uri, offset=offset)\<close>.  An exception anywhere in the body
  is caught by \<^verbatim>\<open>except Exception\<close>, which leaves the loop (the \<^verbatim>\<open>print\<close> is not
  modelled).
\<close>

partial_function (option) collect ::
  "env \<Rightarrow> string \<Rightarrow> pyval list \<Rightarrow> nat \<Rightarrow> nat list \<Rightarrow> (pyval list \<times> nat list) option"
where
  "collect e playlist_uri results offset requested =
     (case bind_exn (sp_playlist_tracks e playlist_uri offset) page_body of
        Inl exn \<Rightarrow> Some (results, requested @ [offset])
      | Inr Break \<Rightarrow> Some (results, requested @ [offset])
      | Inr (Extend_break new) \<Rightarrow> Some (results @ new, requested @ [offset])
      | Inr (Extend_continue new) \<Rightarrow>
          collect e playlist_uri (results @ new) (offset + 100) (requested @ [offset]))"

declare collect.simps [code]

definition get_all_tracks :: "env \<Rightarrow> string \<Rightarrow> (pyval list \<times> nat list) option" where
  "get_all_tracks e playlist_uri = collect e playlist_uri [] 0 []"

text \<open>A catalogue that holds the playlist \<open>tracks\<close> and serves it in pages of 100.\<close>

definition paged :: "pyval list \<Rightarrow> string \<Rightarrow> nat \<Rightarrow> error + pyval" where
  "paged tracks playlist_uri offset =
     Inr (PDict [(''items'', PList (take 100 (drop offset tracks)))])"

section \<open>Track enricher\<close>

record track_data =
  Track_Name :: pyval
  Track_ID :: pyval
  Artist :: pyval
  Artist_ID :: pyval
  Album :: pyval
  Album_Release_Date :: pyval
  Release_Year :: pyval
  External_URL :: pyval
  Popularity :: pyval
  Genres :: pyval

text \<open>Line 81: \<^verbatim>\<open>sp.artist(track["artists"][0]["id"])\<close>.\<close>

definition lookup_artist :: "env \<Rightarrow> pyval \<Rightarrow> error + pyval" where
  "lookup_artist e track =
     bind_exn (getitem track ''artists'') (\<lambda>artists.
       bind_exn (getitem0 artists) (\<lambda>first.
         bind_exn (getitem first ''id'') (sp_artist e)))"

text \<open>Lines 90 to 93: \<^verbatim>\<open>int(release_date[:4])\<close>, any exception giving \<^verbatim>\<open>None\<close>.\<close>

definition release_year :: "pyval \<Rightarrow> pyval" where
  "release_year release_date =
     (case bind_exn (slice4 release_date) py_int of
        Inl exn \<Rightarrow> PNone
      | Inr n \<Rightarrow> PInt n)"

text \<open>Lines 102 and 103: \<^verbatim>\<open>track["artists"][0][k] if track["artists"] else d\<close>.\<close>

definition artist_field :: "pyval \<Rightarrow> string \<Rightarrow> string \<Rightarrow> error + pyval" where
  "artist_field track k d =
     bind_exn (getitem track ''artists'') (\<lambda>artists.
       if truthy artists
       then bind_exn (getitem track ''artists'') (\<lambda>artists'.
              bind_exn (getitem0 artists') (\<lambda>first. getitem first k))
       else Inr (PStr d))"

text \<open>Line 104: \<^verbatim>\<open>track["album"]["name"] if track["album"] else "Unknown Album"\<close>.\<close>

definition album_field :: "pyval \<Rightarrow> error + pyval" where
  "album_field track =
     bind_exn (getitem track ''album'') (\<lambda>album.
       if truthy album
       then bind_exn (getitem track ''album'') (\<lambda>album'. getitem album' ''name'')
       else Inr (PStr ''Unknown Album''))"

text \<open>Line 107:
  \<^verbatim>\<open>track["external_urls"].get("spotify", None) if track["external_urls"] else "No URL"\<close>.\<close>

definition external_url :: "pyval \<Rightarrow> error + pyval" where
  "external_url track =
     bind_exn (getitem track ''external_urls'') (\<lambda>urls.
       if truthy urls
       then bind_exn (getitem track ''external_urls'') (\<lambda>urls'.
              dict_get urls' ''spotify'' PNone)
       else Inr (PStr ''No URL''))"

text \<open>
  Line 109: \<^verbatim>\<open>", ".join(artist_info.get("genres", [])) if artist_info else "No Genres"\<close>.
  The local variable \<^verbatim>\<open>artist_info\<close> is assigned only when the lookup of line 81
  returns; \<open>None\<close> is the variable not yet bound, and reading it raises.
\<close>

definition genres_field :: "pyval option \<Rightarrow> error + pyval" where
  "genres_field artist_info =
     (case artist_info of
        None \<Rightarrow> Inl UnboundLocalError
      | Some info \<Rightarrow>
          if truthy info
          then bind_exn (dict_get info ''genres'' (PList [])) (py_join '', '')
          else Inr (PStr ''No Genres''))"

text \<open>Lines 88 to 110, for one track and the current binding of \<^verbatim>\<open>artist_info\<close>.\<close>

definition make_track_data :: "pyval \<Rightarrow> pyval option \<Rightarrow> error + track_data" where
  "make_track_data track artist_info =
     bind_exn (getitem track ''album'') (\<lambda>album.
     bind_exn (getitem album ''release_date'') (\<lambda>release_date.
     bind_exn (dict_get track ''name'' (PStr ''Unknown Track'')) (\<lambda>track_name.
     bind_exn (dict_get track ''popularity'' (PInt 0)) (\<lambda>track_popularity.
     bind_exn (dict_get track ''id'' (PStr ''No ID'')) (\<lambda>track_id.
     bind_exn (artist_field track ''name'' ''Unknown Artist'') (\<lambda>artist.
     bind_exn (artist_field track ''id'' ''Unknown ID'') (\<lambda>artist_id.
     bind_exn (album_field track) (\<lambda>album_name.
     bind_exn (external_url track) (\<lambda>url.
     bind_exn (genres_field artist_info) (\<lambda>genres.
       Inr \<lparr> Track_Name = track_name, Track_ID = track_id, Artist = artist,
             Artist_ID = artist_id, Album = album_name,
             Album_Release_Date = release_date,
             Release_Year = release_year release_date,
             External_URL = url, Popularity = track_popularity,
             Genres = genres \<rparr>))))))))))"

text \<open>
  Lines 80 to 86: the lookup inside \<^verbatim>\<open>try\<close>.  When it raises, the handler prints and
  assigns \<^verbatim>\<open>audio_features\<close> only, so \<^verbatim>\<open>artist_info\<close> keeps the binding it had.
\<close>

definition bind_artist_info :: "env \<Rightarrow> pyval \<Rightarrow> pyval option \<Rightarrow> pyval option" where
  "bind_artist_info e track artist_info =
     (case lookup_artist e track of
        Inl exn \<Rightarrow> artist_info
      | Inr info \<Rightarrow> Some info)"

text \<open>The \<^verbatim>\<open>for item in tracks_data\<close> loop (lines 74 to 111); \<open>tracks\<close> is the list built
  so far and \<open>artist_info\<close> the variable carried from one iteration to the next.\<close>

fun enrich :: "env \<Rightarrow> pyval option \<Rightarrow> track_data list \<Rightarrow> pyval list \<Rightarrow> error + track_data list"
where
  "enrich e artist_info tracks [] = Inr tracks"
| "enrich e artist_info tracks (item # rest) =
     (case getitem item ''track'' of
        Inl exn \<Rightarrow> Inl exn
      | Inr track \<Rightarrow>
          if \<not> truthy track then enrich e artist_info tracks rest
          else (case make_track_data track (bind_artist_info e track artist_info) of
                  Inl exn \<Rightarrow> Inl exn
                | Inr td \<Rightarrow>
                    enrich e (bind_artist_info e track artist_info) (tracks @ [td]) rest))"

section \<open>Tabular assembler\<close>

text \<open>
  Line 124: \<^verbatim>\<open>pd.to_numeric(df[col], errors='coerce').fillna(0)\<close> on the column
  \<^verbatim>\<open>Popularity\<close>.  A cell that is a number stays, a string goes through the parser of
  pandas, everything else (and a string the parser rejects) becomes \<^verbatim>\<open>NaN\<close>, here
  \<open>None\<close>; \<^verbatim>\<open>fillna(0)\<close> then replaces \<^verbatim>\<open>NaN\<close> by 0.
\<close>

fun to_numeric :: "env \<Rightarrow> pyval \<Rightarrow> int option" where
  "to_numeric e (PInt n) = Some n"
| "to_numeric e (PStr s) = pd_parse e s"
| "to_numeric e _ = None"

definition fillna :: "int \<Rightarrow> int option \<Rightarrow> pyval" where
  "fillna d cell = (case cell of None \<Rightarrow> PInt d | Some n \<Rightarrow> PInt n)"

definition coerce_popularity :: "env \<Rightarrow> track_data list \<Rightarrow> track_data list" where
  "coerce_popularity e df =
     map (\<lambda>row. row\<lparr>Popularity := fillna 0 (to_numeric e (Popularity row))\<rparr>) df"

section \<open>The pipeline\<close>

record metadata =
  Name :: pyval
  Description :: pyval
  Thumbnail :: pyval
  Likes :: pyval
  Total_Tracks :: pyval

text \<open>What the run shows to the user, in order.  \<^verbatim>\<open>visualize_data(metadata, df)\<close> is one
  event.\<close>

datatype ui =
  St_error string
  | St_error_exn string error
  | St_write string
  | St_dataframe "track_data list"
  | Visualize "metadata option" "track_data list"

text \<open>Lines 59 to 65.\<close>

definition playlist_metadata :: "pyval \<Rightarrow> error + metadata" where
  "playlist_metadata playlist_info =
     bind_exn (getitem playlist_info ''name'') (\<lambda>name.
     bind_exn (dict_get playlist_info ''description'' (PStr ''No description available''))
       (\<lambda>description.
     bind_exn (dict_get playlist_info ''images'' PNone) (\<lambda>images.
     bind_exn (if truthy images
               then bind_exn (getitem playlist_info ''images'') (\<lambda>images'.
                      bind_exn (getitem0 images') (\<lambda>first. getitem first ''url''))
               else Inr PNone) (\<lambda>thumbnail.
     bind_exn (dict_get playlist_info ''followers'' (PDict [])) (\<lambda>followers.
     bind_exn (dict_get followers ''total'' (PInt 0)) (\<lambda>likes.
     bind_exn (getitem playlist_info ''tracks'') (\<lambda>tracks.
     bind_exn (getitem tracks ''total'') (\<lambda>total.
       Inr \<lparr> Name = name, Description = description, Thumbnail = thumbnail,
             Likes = likes, Total_Tracks = total \<rparr>))))))))"

text \<open>
  \<^verbatim>\<open>get_playlist_data\<close>.  The result is what was shown, and either the exception that
  left the function or the returned pair; an absent metadata or table is \<open>None\<close>, and
  \<^verbatim>\<open>pd.DataFrame()\<close> is the table without rows.
\<close>

type_synonym outcome = "ui list \<times> (error + metadata option \<times> track_data list option)"

definition get_playlist_data :: "env \<Rightarrow> string \<Rightarrow> outcome option" where
  "get_playlist_data e playlist_link =
     (case parse_playlist_uri playlist_link of
        Inl exn \<Rightarrow>
          Some ([St_error_exn ''Error processing playlist link: '' exn], Inr (None, None))
      | Inr playlist_uri \<Rightarrow>
     (case sp_playlist e playlist_uri of
        Inl exn \<Rightarrow>
          Some ([St_error_exn ''Could not retrieve playlist info: '' exn], Inr (None, None))
      | Inr playlist_info \<Rightarrow>
     (case playlist_metadata playlist_info of
        Inl exn \<Rightarrow> Some ([], Inl exn)
      | Inr metadata \<Rightarrow>
     (case get_all_tracks e playlist_uri of
        None \<Rightarrow> None
      | Some (tracks_data, requested) \<Rightarrow>
          if tracks_data = []
          then Some ([St_error ''Could not retrieve tracks for this playlist.''],
                     Inr (Some metadata, Some []))
          else
     (case enrich e None [] tracks_data of
        Inl exn \<Rightarrow> Some ([], Inl exn)
      | Inr tracks \<Rightarrow>
          if tracks = []
          then Some ([St_error ''No track data available to create DataFrame.''],
                     Inr (Some metadata, Some []))
          else Some ([St_write ''DataFrame Sample:'',
                      St_dataframe (take 5 (coerce_popularity e tracks))],
                     Inr (Some metadata, Some (coerce_popularity e tracks))))))))"

text \<open>Lines 196 to 199 of \<^verbatim>\<open>main\<close>:
  \<^verbatim>\<open>if df is not None and not df.empty: visualize_data(metadata, df)\<close>, else an error.\<close>

definition show_result :: "metadata option \<Rightarrow> track_data list option \<Rightarrow> ui list" where
  "show_result metadata df =
     (if df \<noteq> None \<and> the df \<noteq> [] then [Visualize metadata (the df)]
      else [St_error ''No data to visualize.''])"

text \<open>\<^verbatim>\<open>main\<close>, from the text the user entered to what is shown.\<close>

definition main :: "env \<Rightarrow> string \<Rightarrow> ui list option" where
  "main e playlist_link =
     (if playlist_link \<noteq> [] \<and> \<not> sublist ''spotify.com/playlist/'' playlist_link
      then Some [St_error ''Please enter a valid Spotify playlist link.'']
      else if playlist_link \<noteq> []
      then (case get_playlist_data e playlist_link of
              None \<Rightarrow> None
            | Some (shown, Inl exn) \<Rightarrow> Some (shown @ [St_error_exn ''An error occurred: '' exn])
            | Some (shown, Inr (metadata, df)) \<Rightarrow> Some (shown @ show_result metadata df))
      else Some [])"

section \<open>Test data\<close>

text \<open>The offsets of \<open>n\<close> successive page requests, the first at \<open>offset\<close>.\<close>

fun offsets :: "nat \<Rightarrow> nat \<Rightarrow> nat list" where
  "offsets offset 0 = []"
| "offsets offset (Suc n) = offset # offsets (offset + 100) n"

text \<open>The value of a run of decimal digits, read from the left.\<close>

definition decimal :: "string \<Rightarrow> nat" where
  "decimal s = foldl (\<lambda>acc c. 10 * acc + digit_val c) 0 s"

text \<open>The characters that \<^verbatim>\<open>int\<close> accepts somewhere in a string.\<close>

definition int_char :: "char \<Rightarrow> bool" where
  "int_char c = (is_digit c \<or> is_space c \<or> c = CHR ''+'' \<or> c = CHR ''-'' \<or> c = CHR ''_'')"

text \<open>A track document with the given artist id and, after the fields every track of
  the examples has, the fields \<open>extra\<close>; a track with all the fields the program reads; a playlist
  entry holding a track; a playlist
  document; a small artist catalogue; and a world built from them.\<close>

definition track_doc :: "string \<Rightarrow> (string \<times> pyval) list \<Rightarrow> pyval" where
  "track_doc artist_id extra =
     PDict ([(''name'', PStr ''Song''),
             (''id'', PStr ''t1''),
             (''artists'', PList [PDict [(''id'', PStr artist_id), (''name'', PStr ''Band'')]]),
             (''album'', PDict [(''name'', PStr ''LP''), (''release_date'', PStr ''1999-05-01'')])]
            @ extra)"

definition full_track :: "string \<Rightarrow> pyval" where
  "full_track artist_id =
     track_doc artist_id
       [(''external_urls'', PDict [(''spotify'', PStr ''https://open.spotify.com/track/t1'')]),
        (''popularity'', PInt 87)]"

definition entry :: "pyval \<Rightarrow> pyval" where
  "entry track = PDict [(''track'', track)]"

definition playlist_doc :: pyval where
  "playlist_doc = PDict [(''name'', PStr ''Test Mix''), (''tracks'', PDict [(''total'', PInt 2)])]"

definition artists_db :: "pyval \<Rightarrow> error + pyval" where
  "artists_db artist_id =
     (if artist_id = PStr ''a1''
      then Inr (PDict [(''name'', PStr ''Band''), (''genres'', PList [PStr ''rock'', PStr ''pop''])])
      else if artist_id = PStr ''a2''
      then Inr (PDict [(''name'', PStr ''Solo''), (''genres'', PList [])])
      else if artist_id = PStr ''a3''
      then Inr (PDict [])
      else Inl RequestError)"

definition world :: "pyval list \<Rightarrow> env" where
  "world items =
     \<lparr> sp_playlist = (\<lambda>playlist_uri. Inr playlist_doc),
       sp_playlist_tracks = paged items,
       sp_artist = artists_db,
       pd_parse = int_of_str \<rparr>"

text \<open>The metadata of \<open>playlist_doc\<close>, and a row of a table.\<close>

definition sample_metadata :: metadata where
  "sample_metadata =
     \<lparr> Name = PStr ''Test Mix'', Description = PStr ''No description available'',
       Thumbnail = PNone, Likes = PInt 0, Total_Tracks = PInt 2 \<rparr>"

definition sample_row :: track_data where
  "sample_row =
     \<lparr> Track_Name = PStr ''Song'', Track_ID = PStr ''t1'', Artist = PStr ''Band'',
       Artist_ID = PStr ''a1'', Album = PStr ''LP'', Album_Release_Date = PStr ''1999-05-01'',
       Release_Year = PInt 1999,
       External_URL = PStr ''https://open.spotify.com/track/t1'',
       Popularity = PInt 87, Genres = PStr ''rock, pop'' \<rparr>"

text \<open>A catalogue that serves \<open>tracks\<close> in pages except at the offset \<open>bad\<close>, where the
  request raises.\<close>

definition failing_at :: "nat \<Rightarrow> pyval list \<Rightarrow> string \<Rightarrow> nat \<Rightarrow> error + pyval" where
  "failing_at bad tracks playlist_uri offset =
     (if offset = bad then Inl RequestError else paged tracks playlist_uri offset)"

section \<open>Auxiliary facts\<close>

lemma bind_exn_simps:
  "bind_exn (Inl e) f = Inl e"
  "bind_exn (Inr x) f = f x"
  by (simp_all add: bind_exn_def)

lemma bind_exn_InrD:
  "bind_exn m f = Inr y \<Longrightarrow> \<exists>x. m = Inr x \<and> f x = Inr y"
  by (cases m) (simp_all add: bind_exn_simps)

subsection \<open>Splitting and indexing\<close>

lemma split_from_not_Nil: "split_from f s c \<noteq> []"
  by (induction s arbitrary: f) auto

lemma split_not_Nil: "split s c \<noteq> []"
  by (simp add: split_def split_from_not_Nil)

lemma split_from_no_sep: "c \<notin> set s \<Longrightarrow> split_from f s c = [f @ s]"
  by (induction s arbitrary: f) auto

lemma split_no_sep: "c \<notin> set s \<Longrightarrow> split s c = [s]"
  by (simp add: split_def split_from_no_sep)

lemma last_split_from_append:
  "last (split_from f (p @ c # s) c) = last (split_from [] s c)"
  by (induction p arbitrary: f) (auto simp: split_from_not_Nil)

lemma last_split_append: "last (split (p @ c # s) c) = last (split s c)"
  by (simp add: split_def last_split_from_append)

lemma hd_split_from_append: "c \<notin> set a \<Longrightarrow> hd (split_from f (a @ c # b) c) = f @ a"
  by (induction a arbitrary: f) auto

lemma hd_split_append: "c \<notin> set a \<Longrightarrow> hd (split (a @ c # b) c) = a"
  by (simp add: split_def hd_split_from_append)

lemma index_last: "xs \<noteq> [] \<Longrightarrow> index xs (- 1) = Inr (last xs)"
  by (cases xs rule: rev_cases) (auto simp: index_def nth_append)

lemma index_first: "xs \<noteq> [] \<Longrightarrow> index xs 0 = Inr (hd xs)"
  by (cases xs) (auto simp: index_def)

lemma parse_playlist_uri_eq:
  "parse_playlist_uri link = Inr (hd (split (last (split link CHR ''/'')) CHR ''?''))"
  by (simp add: parse_playlist_uri_def index_last index_first split_not_Nil bind_exn_simps)

subsection \<open>One turn of the collector loop\<close>

lemma page_body_items:
  "page_body (PDict [(''items'', PList xs)])
     = Inr (if length xs < 100 then Extend_break xs else Extend_continue xs)"
  by (simp add: page_body_def bind_exn_simps)

lemma collect_last_page:
  "sp_playlist_tracks e uri offset = Inr (PDict [(''items'', PList xs)]) \<Longrightarrow> length xs < 100
   \<Longrightarrow> collect e uri results offset requested = Some (results @ xs, requested @ [offset])"
  by (subst collect.simps) (simp add: bind_exn_simps page_body_items)

lemma collect_full_page:
  "sp_playlist_tracks e uri offset = Inr (PDict [(''items'', PList xs)]) \<Longrightarrow> \<not> length xs < 100
   \<Longrightarrow> collect e uri results offset requested
       = collect e uri (results @ xs) (offset + 100) (requested @ [offset])"
  by (subst collect.simps) (simp add: bind_exn_simps page_body_items)

lemma length_offsets: "length (offsets offset n) = n"
  by (induction n arbitrary: offset) auto

lemma collect_paged:
  assumes "sp_playlist_tracks e = paged tracks"
  shows "collect e uri results offset requested
           = Some (results @ drop offset tracks,
                   requested @ offsets offset (Suc ((length tracks - offset) div 100)))"
proof (induction "length tracks - offset" arbitrary: results offset requested rule: less_induct)
  case less
  let ?page = "take 100 (drop offset tracks)"
  have req: "sp_playlist_tracks e uri offset = Inr (PDict [(''items'', PList ?page)])"
    by (simp add: assms paged_def)
  show ?case
  proof (cases "length tracks - offset < 100")
    case True
    then have "length ?page < 100" by simp
    then have "collect e uri results offset requested
                 = Some (results @ ?page, requested @ [offset])"
      by (rule collect_last_page [OF req])
    moreover have "?page = drop offset tracks" using True by simp
    ultimately show ?thesis using True by simp
  next
    case False
    then have full: "\<not> length ?page < 100" by simp
    have smaller: "length tracks - (offset + 100) < length tracks - offset"
      using False by simp
    have "collect e uri results offset requested
            = collect e uri (results @ ?page) (offset + 100) (requested @ [offset])"
      by (rule collect_full_page [OF req full])
    also have "\<dots> = Some ((results @ ?page) @ drop (offset + 100) tracks,
                         (requested @ [offset])
                           @ offsets (offset + 100) (Suc ((length tracks - (offset + 100)) div 100)))"
      by (rule less [OF smaller])
    also have "(results @ ?page) @ drop (offset + 100) tracks = results @ drop offset tracks"
    proof -
      have "drop (offset + 100) tracks = drop 100 (drop offset tracks)"
        by (simp add: add.commute)
      then show ?thesis by (simp only: append_assoc append_take_drop_id)
    qed
    also have "Suc ((length tracks - (offset + 100)) div 100) = (length tracks - offset) div 100"
    proof -
      have "length tracks - offset = (length tracks - (offset + 100)) + 100"
        using False by simp
      then show ?thesis by (metis div_add_self2 zero_neq_numeral Suc_eq_plus1)
    qed
    finally show ?thesis by simp
  qed
qed

lemma pages_count:
  "Suc (n div 100) = (if n mod 100 = 0 then n div 100 + 1 else (n + 99) div 100)"
proof (cases "n mod 100 = 0")
  case True
  then show ?thesis by simp
next
  case False
  have "n = 100 * (n div 100) + n mod 100" by simp
  then have "n + 99 = 100 * (n div 100 + 1) + (n mod 100 - 1)" using False by simp
  moreover have "n mod 100 - 1 < 100" by (simp add: less_imp_diff_less)
  ultimately have "(n + 99) div 100 = n div 100 + 1"
    by (metis div_mult_self2 div_less add.commute add_cancel_left_left zero_neq_numeral
        mult.commute)
  then show ?thesis using False by simp
qed

subsection \<open>Reading an integer\<close>

lemma digit_not_space: "is_digit c \<Longrightarrow> \<not> is_space c"
  by (auto simp: is_digit_def is_space_def)

lemma digit_not_sign: "is_digit c \<Longrightarrow> c \<noteq> CHR ''-'' \<and> c \<noteq> CHR ''+''"
  by (auto simp: is_digit_def)

lemma dropWhile_hd_id: "s \<noteq> [] \<Longrightarrow> \<not> P (hd s) \<Longrightarrow> dropWhile P s = s"
  by (cases s) auto

lemma strip_digits: "\<forall>c\<in>set s. is_digit c \<Longrightarrow> strip s = s"
proof (cases "s = []")
  case True
  then show ?thesis by (simp add: strip_def)
next
  case False
  assume d: "\<forall>c\<in>set s. is_digit c"
  have "\<not> is_space (hd s)" using False d by (simp add: digit_not_space)
  then have a: "dropWhile is_space s = s" using False by (simp add: dropWhile_hd_id)
  have "\<not> is_space (hd (rev s))" using False d by (simp add: digit_not_space hd_rev)
  then have "dropWhile is_space (rev s) = rev s" using False by (simp add: dropWhile_hd_id)
  then show ?thesis using a by (simp add: strip_def)
qed

lemma digits_True_all:
  "\<forall>c\<in>set s. is_digit c
   \<Longrightarrow> digits True acc s = Some (foldl (\<lambda>a c. 10 * a + digit_val c) acc s)"
  by (induction s arbitrary: acc) auto

lemma digits_all:
  "\<forall>c\<in>set s. is_digit c \<Longrightarrow> s \<noteq> []
   \<Longrightarrow> digits prev acc s = Some (foldl (\<lambda>a c. 10 * a + digit_val c) acc s)"
  by (cases s) (simp_all add: digits_True_all)

lemma int_of_str_digits:
  assumes "\<forall>c\<in>set s. is_digit c" and "s \<noteq> []"
  shows "int_of_str s = Some (int (decimal s))"
proof -
  obtain c cs where s: "s = c # cs" using assms(2) by (cases s) auto
  have "is_digit c" using assms(1) s by simp
  then have sign: "c \<noteq> CHR ''-''" "c \<noteq> CHR ''+''" using digit_not_sign by blast+
  have st: "strip (c # cs) = c # cs" using strip_digits [OF assms(1)] s by simp
  have "int_of_str (c # cs) = map_option int (digits False 0 (c # cs))"
    using sign by (simp add: int_of_str_def st del: digits.simps)
  moreover have "digits False 0 s = Some (decimal s)"
    unfolding decimal_def using assms by (rule digits_all)
  ultimately show ?thesis using s by simp
qed

lemma digits_bad: "c \<in> set s \<Longrightarrow> \<not> is_digit c \<Longrightarrow> c \<noteq> CHR ''_'' \<Longrightarrow> digits prev acc s = None"
  by (induction s arbitrary: prev acc) auto

lemma set_dropWhile_keep: "c \<in> set s \<Longrightarrow> \<not> P c \<Longrightarrow> c \<in> set (dropWhile P s)"
  by (induction s) auto

lemma strip_keep: "c \<in> set s \<Longrightarrow> \<not> is_space c \<Longrightarrow> c \<in> set (strip s)"
  by (simp add: strip_def set_dropWhile_keep)

lemma int_of_str_bad:
  assumes "c \<in> set s" and "\<not> int_char c"
  shows "int_of_str s = None"
proof -
  have c: "\<not> is_digit c" "\<not> is_space c" "c \<noteq> CHR ''+''" "c \<noteq> CHR ''-''" "c \<noteq> CHR ''_''"
    using assms(2) by (auto simp: int_char_def)
  have mem: "c \<in> set (strip s)" using assms(1) c(2) by (rule strip_keep)
  then obtain d ds where ds: "strip s = d # ds" by (cases "strip s") auto
  have whole: "digits False 0 (d # ds) = None"
    using mem c(1) c(5) unfolding ds by (rule digits_bad)
  show ?thesis
  proof (cases "d = CHR ''-'' \<or> d = CHR ''+''")
    case True
    then have "c \<in> set ds" using mem ds c(3,4) by auto
    then have "digits False 0 ds = None" using c(1) c(5) by (rule digits_bad)
    then show ?thesis using True ds by (auto simp: int_of_str_def)
  next
    case False
    then show ?thesis using ds whole by (simp add: int_of_str_def)
  qed
qed

lemma int_of_str_empty: "int_of_str [] = None"
  by (simp add: int_of_str_def strip_def)

lemma release_year_str:
  "release_year (PStr s) = (case int_of_str (take 4 s) of None \<Rightarrow> PNone | Some n \<Rightarrow> PInt n)"
  by (simp add: release_year_def bind_exn_simps split: option.splits)

subsection \<open>Rows and tables\<close>

lemma make_track_data_fields:
  assumes "make_track_data track artist_info = Inr td"
  shows "genres_field artist_info = Inr (Genres td)"
    and "external_url track = Inr (External_URL td)"
    and "dict_get track ''popularity'' (PInt 0) = Inr (Popularity td)"
proof -
  from assms obtain album release_date track_name track_popularity track_id artist artist_id
      album_name url genres
    where f: "dict_get track ''popularity'' (PInt 0) = Inr track_popularity"
      "external_url track = Inr url"
      "genres_field artist_info = Inr genres"
      and td: "td = \<lparr> Track_Name = track_name, Track_ID = track_id, Artist = artist,
             Artist_ID = artist_id, Album = album_name,
             Album_Release_Date = release_date,
             Release_Year = release_year release_date,
             External_URL = url, Popularity = track_popularity,
             Genres = genres \<rparr>"
    unfolding make_track_data_def
    by (elim bind_exn_InrD [elim_format] exE conjE) (simp, blast)
  show "genres_field artist_info = Inr (Genres td)" using f td by simp
  show "external_url track = Inr (External_URL td)" using f td by simp
  show "dict_get track ''popularity'' (PInt 0) = Inr (Popularity td)" using f td by simp
qed



lemmas run_defs =
  full_track_def track_doc_def entry_def world_def artists_db_def playlist_doc_def
  make_track_data_def bind_artist_info_def lookup_artist_def genres_field_def
  external_url_def album_field_def artist_field_def release_year_def py_join_def
  bind_exn_simps int_of_str_def strip_def is_space_def is_digit_def digit_val_def




lemma get_playlist_data_no_rows:
  assumes "parse_playlist_uri link = Inr uri" and "sp_playlist e uri = Inr info"
    and "playlist_metadata info = Inr md"
    and "get_all_tracks e uri = Some (tracks_data, requested)" and "tracks_data \<noteq> []"
    and "enrich e None [] tracks_data = Inr []"
  shows "get_playlist_data e link
           = Some ([St_error ''No track data available to create DataFrame.''],
                   Inr (Some md, Some []))"
  using assms by (simp add: get_playlist_data_def)

section \<open>Playlist identifier parser\<close>

text \<open>
  Claim C6, as amended.  For a link \<open>base/playlist/<id>?<query>\<close> in which the
  identifier has neither \<open>/\<close> nor \<open>?\<close> and the query has no \<open>/\<close>, the parser returns
  exactly the identifier.  The restriction on the query is needed: the parser takes the
  text after the last \<open>/\<close> of the whole link, also when that \<open>/\<close> stands in the query.
\<close>

theorem parser_returns_id:
  assumes "CHR ''/'' \<notin> set ident" and "CHR ''?'' \<notin> set ident" and "CHR ''/'' \<notin> set query"
  shows "parse_playlist_uri (base @ ''/playlist/'' @ ident @ ''?'' @ query) = Inr ident"
proof -
  have "base @ ''/playlist/'' @ ident @ ''?'' @ query
          = (base @ ''/playlist'') @ CHR ''/'' # (ident @ CHR ''?'' # query)"
    by simp
  then have "last (split (base @ ''/playlist/'' @ ident @ ''?'' @ query) CHR ''/'')
          = last (split (ident @ CHR ''?'' # query) CHR ''/'')"
    by (simp only: last_split_append)
  also have "\<dots> = ident @ CHR ''?'' # query"
    using assms by (simp add: split_no_sep)
  finally show ?thesis
    using assms(2) by (simp add: parse_playlist_uri_eq hd_split_append)
qed

theorem parser_returns_id_witness:
  "parse_playlist_uri ''https://open.spotify.com/playlist/37i9dQZF1DXcBWIGoYBM5M?si=abc123''
     = Inr ''37i9dQZF1DXcBWIGoYBM5M''"
  using parser_returns_id [of "''37i9dQZF1DXcBWIGoYBM5M''" "''si=abc123''"
      "''https://open.spotify.com''"]
  by simp

text \<open>The claim as written fails when the query holds a \<open>/\<close>: the link below has the
  identifier \<open>abc\<close>, and the parser returns \<open>b\<close>.\<close>

theorem parser_query_slash_counterexample:
  "CHR ''/'' \<notin> set ''abc'' \<and> CHR ''?'' \<notin> set ''abc''
   \<and> parse_playlist_uri
         (''https://open.spotify.com'' @ ''/playlist/'' @ ''abc'' @ ''?'' @ ''go=a/b'')
       = Inr ''b''
   \<and> parse_playlist_uri
         (''https://open.spotify.com'' @ ''/playlist/'' @ ''abc'' @ ''?'' @ ''go=a/b'')
       \<noteq> Inr ''abc''"
  by (simp add: parse_playlist_uri_eq split_def)

text \<open>
  Claim C7, as amended.  On a string the parser itself never fails: for every link,
  empty or malformed ones included, it returns an identifier, the empty one for the
  empty link.  What rejects a malformed link is the check at the start of
  \<^verbatim>\<open>main\<close>: a non-empty link without the text \<^verbatim>\<open>spotify.com/playlist/\<close> gets the
  message \<^verbatim>\<open>Please enter a valid Spotify playlist link.\<close> and nothing else happens.  For
  the empty link \<^verbatim>\<open>main\<close> shows nothing and does not start the pipeline.
\<close>

theorem parser_never_fails:
  "(\<exists>ident. parse_playlist_uri link = Inr ident)
   \<and> parse_playlist_uri [] = Inr []
   \<and> (link \<noteq> [] \<and> \<not> sublist ''spotify.com/playlist/'' link
        \<longrightarrow> main e link = Some [St_error ''Please enter a valid Spotify playlist link.''])
   \<and> main e [] = Some []"
  by (simp add: parse_playlist_uri_eq main_def split_def)

text \<open>A malformed link: the parser returns it whole as the identifier, and \<^verbatim>\<open>main\<close>
  stops at its own check.\<close>

theorem parser_never_fails_witness:
  "parse_playlist_uri ''not a link'' = Inr ''not a link''
   \<and> main (world []) ''not a link''
       = Some [St_error ''Please enter a valid Spotify playlist link.'']"
proof -
  have n: "''not a link'' \<noteq> [] \<and> \<not> sublist ''spotify.com/playlist/'' ''not a link''"
    by code_simp
  have "main (world []) ''not a link''
       = Some [St_error ''Please enter a valid Spotify playlist link.'']"
    using parser_never_fails [of "''not a link''" "world []"] n by blast
  moreover have "parse_playlist_uri ''not a link'' = Inr ''not a link''"
    by code_simp
  ultimately show ?thesis by simp
qed

text \<open>The claim as written fails at the empty link: the parser returns the empty
  identifier without an error, \<^verbatim>\<open>main\<close> shows no message, and
  \<^verbatim>\<open>get_playlist_data\<close>, when called with it, goes on to the catalogue requests.\<close>

theorem empty_link_counterexample:
  "parse_playlist_uri '''' = Inr ''''
   \<and> main (world []) '''' = Some []
   \<and> get_playlist_data (world []) ''''
       = Some ([St_error ''Could not retrieve tracks for this playlist.''],
               Inr (Some sample_metadata, Some []))"
proof (intro conjI)
  show "parse_playlist_uri '''' = Inr ''''" by code_simp
  show "main (world []) '''' = Some []" by code_simp
  show "get_playlist_data (world []) ''''
       = Some ([St_error ''Could not retrieve tracks for this playlist.''],
               Inr (Some sample_metadata, Some []))"
    by code_simp
qed

section \<open>Paginated track collector\<close>

text \<open>
  Claim C2.  Against a catalogue that holds a playlist of \<open>N\<close> tracks and serves it in
  pages of 100, \<^verbatim>\<open>get_all_tracks\<close> returns (so the loop ends), returns exactly the \<open>N\<close>
  tracks in order, and has issued \<open>N div 100 + 1\<close> page requests when \<open>N\<close> is a multiple
  of 100 (one request for \<open>N = 0\<close>) and \<open>ceil(N/100)\<close> requests otherwise, at the offsets
  0, 100, 200 and so on.  This holds for every \<open>N\<close>, in particular for 0, 1, 99, 100, 101
  and 250.
\<close>

theorem collector_pages:
  "\<exists>requested.
     get_all_tracks (e\<lparr>sp_playlist_tracks := paged tracks\<rparr>) uri = Some (tracks, requested)
     \<and> requested = offsets 0 (length requested)
     \<and> length requested
         = (if length tracks mod 100 = 0 then length tracks div 100 + 1
            else (length tracks + 99) div 100)"
proof -
  let ?e = "e\<lparr>sp_playlist_tracks := paged tracks\<rparr>"
  let ?n = "Suc (length tracks div 100)"
  have "sp_playlist_tracks ?e = paged tracks" by simp
  then have "collect ?e uri [] 0 []
               = Some ([] @ drop 0 tracks, [] @ offsets 0 (Suc ((length tracks - 0) div 100)))"
    by (rule collect_paged)
  then have run: "get_all_tracks ?e uri = Some (tracks, offsets 0 ?n)"
    by (simp add: get_all_tracks_def del: offsets.simps)
  have len: "length (offsets 0 ?n) = ?n" by (rule length_offsets)
  have "offsets 0 ?n = offsets 0 (length (offsets 0 ?n))" by (simp only: len)
  moreover have "length (offsets 0 ?n)
                   = (if length tracks mod 100 = 0 then length tracks div 100 + 1
                      else (length tracks + 99) div 100)"
    unfolding len by (rule pages_count)
  ultimately show ?thesis using run by blast
qed

text \<open>Playlists of 0, 1, 99, 100, 101 and 250 tracks, with the offsets requested.\<close>

theorem collector_pages_witness:
  "get_all_tracks (world (replicate 0 PNone)) ''p'' = Some (replicate 0 PNone, [0])
   \<and> get_all_tracks (world (replicate 1 PNone)) ''p'' = Some (replicate 1 PNone, [0])
   \<and> get_all_tracks (world (replicate 99 PNone)) ''p'' = Some (replicate 99 PNone, [0])
   \<and> get_all_tracks (world (replicate 100 PNone)) ''p'' = Some (replicate 100 PNone, [0, 100])
   \<and> get_all_tracks (world (replicate 101 PNone)) ''p'' = Some (replicate 101 PNone, [0, 100])
   \<and> get_all_tracks (world (replicate 250 PNone)) ''p''
       = Some (replicate 250 PNone, [0, 100, 200])"
proof -
  have w: "(world [])\<lparr>sp_playlist_tracks := paged ts\<rparr> = world ts" for ts
    by (simp add: world_def)
  have run: "get_all_tracks (world ts) ''p''
               = Some (ts, offsets 0 (if length ts mod 100 = 0 then length ts div 100 + 1
                                      else (length ts + 99) div 100))" for ts
    using collector_pages [where e = "world []" and tracks = ts and uri = "''p''"] unfolding w by auto
  have o1: "offsets 0 1 = [0]" and o2: "offsets 0 2 = [0, 100]" and o3: "offsets 0 3 = [0, 100, 200]"
    by (simp_all add: numeral_2_eq_2 numeral_3_eq_3)
  show ?thesis
    using run [of "replicate 0 PNone"] run [of "replicate 1 PNone"] run [of "replicate 99 PNone"]
      run [of "replicate 100 PNone"] run [of "replicate 101 PNone"] run [of "replicate 250 PNone"]
    by (simp add: o1 o2 o3)
qed

text \<open>
  Claim C3.  When the page request at the current offset raises while the collector
  holds the items \<open>results\<close>, the loop ends and the collector returns exactly
  \<open>results\<close>; the result is a value, not an exception.
\<close>

theorem collector_fetch_failure:
  "sp_playlist_tracks e uri offset = Inl exn
   \<Longrightarrow> collect e uri results offset requested = Some (results, requested @ [offset])"
  by (subst collect.simps) (simp add: bind_exn_simps)

text \<open>A playlist of 250 tracks whose second page request raises: the collector returns
  the 100 tracks of the first page.\<close>

theorem collector_fetch_failure_witness:
  "get_all_tracks ((world [])\<lparr>sp_playlist_tracks := failing_at 100 (replicate 250 PNone)\<rparr>) ''p''
     = Some (replicate 100 PNone, [0, 100])"
proof -
  let ?e = "(world [])\<lparr>sp_playlist_tracks := failing_at 100 (replicate 250 PNone)\<rparr>"
  have first: "sp_playlist_tracks ?e ''p'' 0 = Inr (PDict [(''items'', PList (replicate 100 PNone))])"
    by (simp add: failing_at_def paged_def)
  have "get_all_tracks ?e ''p'' = collect ?e ''p'' ([] @ replicate 100 PNone) (0 + 100) ([] @ [0])"
    unfolding get_all_tracks_def by (rule collect_full_page [OF first]) simp
  also have "\<dots> = Some ([] @ replicate 100 PNone, ([] @ [0]) @ [0 + 100])"
    by (rule collector_fetch_failure [where exn = RequestError]) (simp add: failing_at_def)
  finally show ?thesis by simp
qed

section \<open>Track enricher\<close>

text \<open>
  Claim C1.  The claim asks that a failed artist lookup gives the track the genre string
  \<^verbatim>\<open>No Genres\<close> and never stops the batch.  The program does neither.  The handler
  of the failed lookup does not assign \<^verbatim>\<open>artist_info\<close>.  When the lookup of the first
  track fails the variable is unbound, line 109 raises \<^verbatim>\<open>UnboundLocalError\<close>, the
  enrichment of the whole playlist is abandoned and \<^verbatim>\<open>main\<close> shows
  \<^verbatim>\<open>An error occurred\<close>.  When the lookup of a later track fails the track gets the
  genres of the artist looked up last: below, the second track, whose lookup fails,
  carries the genres \<^verbatim>\<open>rock, pop\<close> of the first.
\<close>

theorem failed_lookup_aborts:
  "lookup_artist (world []) (full_track ''zz'') = Inl RequestError
   \<and> enrich (world []) None [] [entry (full_track ''zz'')] = Inl UnboundLocalError
   \<and> main (world [entry (full_track ''zz'')]) ''https://open.spotify.com/playlist/abc''
       = Some [St_error_exn ''An error occurred: '' UnboundLocalError]
   \<and> map_sum id (map Genres)
         (enrich (world []) None [] [entry (full_track ''a1''), entry (full_track ''zz'')])
       = Inr [PStr ''rock, pop'', PStr ''rock, pop'']"
proof (intro conjI)
  show "lookup_artist (world []) (full_track ''zz'') = Inl RequestError"
    by code_simp
  show "enrich (world []) None [] [entry (full_track ''zz'')] = Inl UnboundLocalError"
    by code_simp
  show "main (world [entry (full_track ''zz'')]) ''https://open.spotify.com/playlist/abc''
       = Some [St_error_exn ''An error occurred: '' UnboundLocalError]"
    by code_simp
  show "map_sum id (map Genres)
         (enrich (world []) None [] [entry (full_track ''a1''), entry (full_track ''zz'')])
       = Inr [PStr ''rock, pop'', PStr ''rock, pop'']"
    by code_simp
qed




text \<open>
  Claim C8, as amended.  For every release-date string the release year is what
  \<^verbatim>\<open>int\<close> makes of its first four characters (of all of them when there are fewer),
  and \<^verbatim>\<open>None\<close> when \<^verbatim>\<open>int\<close> rejects them; no exception leaves the computation.  So a
  non-empty prefix of decimal digits gives its decimal value, also when the string is
  shorter than four characters; the empty string gives \<^verbatim>\<open>None\<close>; and a prefix that
  holds a character other than a digit, a sign, an underscore or whitespace gives
  \<^verbatim>\<open>None\<close>.
\<close>

theorem release_year_parse:
  "release_year (PStr s) = (case int_of_str (take 4 s) of None \<Rightarrow> PNone | Some n \<Rightarrow> PInt n)
   \<and> (s \<noteq> [] \<and> (\<forall>c\<in>set (take 4 s). is_digit c)
        \<longrightarrow> release_year (PStr s) = PInt (int (decimal (take 4 s))))
   \<and> (s = [] \<longrightarrow> release_year (PStr s) = PNone)
   \<and> ((\<exists>c\<in>set (take 4 s). \<not> int_char c) \<longrightarrow> release_year (PStr s) = PNone)"
proof (intro conjI impI)
  show "release_year (PStr s) = (case int_of_str (take 4 s) of None \<Rightarrow> PNone | Some n \<Rightarrow> PInt n)"
    by (rule release_year_str)
next
  assume a: "s \<noteq> [] \<and> (\<forall>c\<in>set (take 4 s). is_digit c)"
  then have "take 4 s \<noteq> []" by simp
  with a have "int_of_str (take 4 s) = Some (int (decimal (take 4 s)))"
    by (simp add: int_of_str_digits)
  then show "release_year (PStr s) = PInt (int (decimal (take 4 s)))"
    by (simp add: release_year_str)
next
  assume "s = []"
  then show "release_year (PStr s) = PNone"
    by (simp add: release_year_str int_of_str_empty)
next
  assume "\<exists>c\<in>set (take 4 s). \<not> int_char c"
  then obtain c where "c \<in> set (take 4 s)" "\<not> int_char c" by blast
  then have "int_of_str (take 4 s) = None" by (rule int_of_str_bad)
  then show "release_year (PStr s) = PNone" by (simp add: release_year_str)
qed

text \<open>A full date, the empty string, and a text that is not a number.\<close>

theorem release_year_parse_witness:
  "release_year (PStr ''1999-05-01'') = PInt 1999
   \<and> release_year (PStr '''') = PNone
   \<and> release_year (PStr ''n/a'') = PNone"
proof -
  have d: "''1999-05-01'' \<noteq> [] \<and> (\<forall>c\<in>set (take 4 ''1999-05-01''). is_digit c)"
    by (simp add: is_digit_def)
  have b: "\<exists>c\<in>set (take 4 ''n/a''). \<not> int_char c"
    by (simp add: int_char_def is_digit_def is_space_def)
  have "release_year (PStr ''1999-05-01'') = PInt (int (decimal (take 4 ''1999-05-01'')))"
    using release_year_parse [of "''1999-05-01''"] d by blast
  moreover have "decimal (take 4 ''1999-05-01'') = 1999"
    by (simp add: decimal_def digit_val_def)
  moreover have "release_year (PStr '''') = PNone"
    using release_year_parse [of "''''"] by blast
  moreover have "release_year (PStr ''n/a'') = PNone"
    using release_year_parse [of "''n/a''"] b by blast
  ultimately show ?thesis by simp
qed

text \<open>The claim as written fails for a numeric string shorter than four characters:
  its release year is the number, not \<^verbatim>\<open>None\<close>.\<close>

theorem release_year_short_counterexample:
  "length ''199'' < 4 \<and> release_year (PStr ''199'') = PInt 199
   \<and> release_year (PStr ''199'') \<noteq> PNone"
  by (simp add: release_year_str int_of_str_def strip_def is_space_def is_digit_def digit_val_def)

text \<open>
  Claim C10, as amended.  For a track that yields a row: when the value of
  \<^verbatim>\<open>external_urls\<close> is a non-empty dictionary without the key \<^verbatim>\<open>spotify\<close>, the
  External URL of the row is \<^verbatim>\<open>None\<close>; when the value is \<^verbatim>\<open>None\<close> or the empty
  dictionary, it is the string \<^verbatim>\<open>No URL\<close>.
\<close>

theorem external_url_cases:
  assumes "make_track_data track artist_info = Inr td"
  shows "(getitem track ''external_urls'' = Inr (PDict urls) \<and> urls \<noteq> []
            \<and> map_of urls ''spotify'' = None
            \<longrightarrow> External_URL td = PNone)
       \<and> (getitem track ''external_urls'' = Inr PNone
            \<or> getitem track ''external_urls'' = Inr (PDict [])
            \<longrightarrow> External_URL td = PStr ''No URL'')"
proof -
  have "external_url track = Inr (External_URL td)"
    using assms by (rule make_track_data_fields(2))
  then show ?thesis
    by (auto simp: external_url_def bind_exn_simps)
qed

text \<open>A mapping without the key \<^verbatim>\<open>spotify\<close>, a null mapping and an empty mapping.\<close>

theorem external_url_cases_witness:
  "(\<exists>td. make_track_data (track_doc ''a1'' [(''external_urls'', PDict [(''other'', PStr ''u'')])])
            (Some (PDict [])) = Inr td
         \<and> External_URL td = PNone)
   \<and> (\<exists>td. make_track_data (track_doc ''a1'' [(''external_urls'', PNone)])
            (Some (PDict [])) = Inr td
         \<and> External_URL td = PStr ''No URL'')
   \<and> (\<exists>td. make_track_data (track_doc ''a1'' [(''external_urls'', PDict [])])
            (Some (PDict [])) = Inr td
         \<and> External_URL td = PStr ''No URL'')"
proof -
  let ?t1 = "track_doc ''a1'' [(''external_urls'', PDict [(''other'', PStr ''u'')])]"
  let ?t2 = "track_doc ''a1'' [(''external_urls'', PNone)]"
  let ?t3 = "track_doc ''a1'' [(''external_urls'', PDict [])]"
  obtain td1 where t1: "make_track_data ?t1 (Some (PDict [])) = Inr td1"
    by (simp add: run_defs)
  obtain td2 where t2: "make_track_data ?t2 (Some (PDict [])) = Inr td2"
    by (simp add: run_defs)
  obtain td3 where t3: "make_track_data ?t3 (Some (PDict [])) = Inr td3"
    by (simp add: run_defs)
  have g1: "getitem ?t1 ''external_urls'' = Inr (PDict [(''other'', PStr ''u'')])"
    by (simp add: track_doc_def)
  have g2: "getitem ?t2 ''external_urls'' = Inr PNone"
    by (simp add: track_doc_def)
  have g3: "getitem ?t3 ''external_urls'' = Inr (PDict [])"
    by (simp add: track_doc_def)
  have "External_URL td1 = PNone"
    using external_url_cases [OF t1, of "[(''other'', PStr ''u'')]"] g1 by simp
  moreover have "External_URL td2 = PStr ''No URL''"
    using external_url_cases [OF t2] g2 by simp
  moreover have "External_URL td3 = PStr ''No URL''"
    using external_url_cases [OF t3] g3 by simp
  ultimately show ?thesis using t1 t2 t3 by simp
qed

text \<open>The claim as written fails when the track has no \<^verbatim>\<open>external_urls\<close> key at all:
  line 107 subscripts the track, the subscript raises \<^verbatim>\<open>KeyError\<close>, no row is built
  and \<^verbatim>\<open>main\<close> reports the exception.\<close>

theorem external_urls_missing_counterexample:
  "getitem (track_doc ''a1'' [(''popularity'', PInt 87)]) ''external_urls'' = Inl KeyError
   \<and> make_track_data (track_doc ''a1'' [(''popularity'', PInt 87)]) (Some (PDict []))
       = Inl KeyError
   \<and> main (world [entry (track_doc ''a1'' [(''popularity'', PInt 87)])])
         ''https://open.spotify.com/playlist/abc''
       = Some [St_error_exn ''An error occurred: '' KeyError]"
proof (intro conjI)
  show "getitem (track_doc ''a1'' [(''popularity'', PInt 87)]) ''external_urls'' = Inl KeyError"
    by code_simp
  show "make_track_data (track_doc ''a1'' [(''popularity'', PInt 87)]) (Some (PDict []))
       = Inl KeyError"
    by code_simp
  show "main (world [entry (track_doc ''a1'' [(''popularity'', PInt 87)])])
         ''https://open.spotify.com/playlist/abc''
       = Some [St_error_exn ''An error occurred: '' KeyError]"
    by code_simp
qed

section \<open>Tabular assembler\<close>



text \<open>
  Claim C5, as amended.  When the enrichment produces no rows, \<^verbatim>\<open>get_playlist_data\<close>
  shows \<^verbatim>\<open>No track data available to create DataFrame.\<close> and returns the metadata
  with an empty table, not an absent one.  The caller renders a table only when it is
  present and has rows; an empty table and an absent table both end in the message
  \<^verbatim>\<open>No data to visualize.\<close>
\<close>

theorem empty_table_not_rendered:
  "(parse_playlist_uri link = Inr uri \<and> sp_playlist e uri = Inr info
      \<and> playlist_metadata info = Inr md
      \<and> get_all_tracks e uri = Some (tracks_data, requested) \<and> tracks_data \<noteq> []
      \<and> enrich e None [] tracks_data = Inr []
      \<longrightarrow> get_playlist_data e link
            = Some ([St_error ''No track data available to create DataFrame.''],
                    Inr (Some md, Some [])))
   \<and> show_result m (Some []) = [St_error ''No data to visualize.'']
   \<and> show_result m None = [St_error ''No data to visualize.'']
   \<and> (rows \<noteq> [] \<longrightarrow> show_result m (Some rows) = [Visualize m rows])"
  using get_playlist_data_no_rows [of link uri e info md tracks_data requested]
  by (simp add: show_result_def)

text \<open>A playlist whose only entry has no track, and a table of one row.\<close>

theorem empty_table_not_rendered_witness:
  "get_playlist_data (world [entry PNone]) ''https://open.spotify.com/playlist/abc''
     = Some ([St_error ''No track data available to create DataFrame.''],
             Inr (Some sample_metadata, Some []))
   \<and> show_result (Some sample_metadata) (Some [sample_row])
       = [Visualize (Some sample_metadata) [sample_row]]"
proof -
  let ?e = "world [entry PNone]"
  let ?link = "''https://open.spotify.com/playlist/abc''"
  have 1: "parse_playlist_uri ?link = Inr ''abc''" by code_simp
  have 2: "sp_playlist ?e ''abc'' = Inr playlist_doc" by (simp add: world_def)
  have 3: "playlist_metadata playlist_doc = Inr sample_metadata" by code_simp
  have 4: "get_all_tracks ?e ''abc'' = Some ([entry PNone], [0])" by code_simp
  have 5: "enrich ?e None [] [entry PNone] = Inr []" by code_simp
  show ?thesis
    using empty_table_not_rendered [of ?link "''abc''" ?e playlist_doc sample_metadata
        "[entry PNone]" "[0]" _ "[sample_row]"] 1 2 3 4 5
    by simp
qed

text \<open>The claim as written fails for the empty table: it is present, and the caller
  treats it as it treats an absent one, with an error message and no rendering.\<close>

theorem empty_table_counterexample:
  "get_playlist_data (world [entry PNone]) ''https://open.spotify.com/playlist/abc''
     = Some ([St_error ''No track data available to create DataFrame.''],
             Inr (Some sample_metadata, Some []))
   \<and> main (world [entry PNone]) ''https://open.spotify.com/playlist/abc''
       = Some [St_error ''No track data available to create DataFrame.'',
               St_error ''No data to visualize.'']
   \<and> show_result (Some sample_metadata) (Some []) = show_result (Some sample_metadata) None"
proof (intro conjI)
  show "get_playlist_data (world [entry PNone]) ''https://open.spotify.com/playlist/abc''
     = Some ([St_error ''No track data available to create DataFrame.''],
             Inr (Some sample_metadata, Some []))"
    by code_simp
  show "main (world [entry PNone]) ''https://open.spotify.com/playlist/abc''
       = Some [St_error ''No track data available to create DataFrame.'',
               St_error ''No data to visualize.'']"
    by code_simp
  show "show_result (Some sample_metadata) (Some []) = show_result (Some sample_metadata) None"
    by code_simp
qed

end
